theory Spec2Isabelle
  imports Main "HOL-Library.Word"
begin

unbundle bit_operations_syntax

section \<open>Python values\<close>

text \<open>
  A Python \<open>str\<close> is a sequence of Unicode code points, so \<open>len\<close> counts code points
  and the character tests of \<open>str\<close> see every code point. It is modelled as a list of
  code points (only numbers below \<open>0x110000\<close> occur in a Python string). \<open>str\<close> turns an
  ASCII literal into such a list.
\<close>

type_synonym pystr = "nat list"

definition str :: "string \<Rightarrow> pystr" where
  "str s = map of_char s"

text \<open>
  What \<open>json.load\<close> returns: \<open>None\<close>, a \<open>bool\<close>, an \<open>int\<close> (unbounded), a \<open>float\<close>
  (an IEEE double, kept as its bit pattern: no function of the pipeline reads it), a
  \<open>str\<close>, a \<open>list\<close> or a \<open>dict\<close> with \<open>str\<close> keys. A dict is an association list in
  insertion order; the keys of a decoded dict are distinct.
\<close>

datatype json =
    JNull
  | JBool bool
  | JInt int
  | JFloat "64 word"
  | JStr pystr
  | JArr "json list"
  | JObj "(pystr \<times> json) list"

text \<open>
  The exceptions the pipeline can raise. \<open>NotModelled\<close> is not a Python exception: it marks
  the inputs of three pandas operations on which their result depends on dtype inference
  that this embedding does not describe (see \<open>value_counts\<close>, \<open>series_sum\<close> and
  \<open>explode_cell\<close>); frames built by \<open>process_json_data\<close> reach it only through an
  \<open>IsActive\<close> that is not a \<open>bool\<close> or an \<open>Age\<close> beyond \<open>2^53\<close>.
\<close>

datatype error =
    TypeError
  | AttributeError
  | ValueError
  | IndexError
  | KeyError pystr
  | UnicodeEncodeError
  | NotModelled

definition bindE :: "error + 'a \<Rightarrow> ('a \<Rightarrow> error + 'b) \<Rightarrow> error + 'b" where
  "bindE m f = (case m of Inl e \<Rightarrow> Inl e | Inr x \<Rightarrow> f x)"

fun mapE :: "('a \<Rightarrow> error + 'b) \<Rightarrow> 'a list \<Rightarrow> error + 'b list" where
  "mapE f [] = Inr []"
| "mapE f (x # xs) = bindE (f x) (\<lambda>y. bindE (mapE f xs) (\<lambda>ys. Inr (y # ys)))"

text \<open>
  Iteration (\<open>for x in v\<close>, a generator over \<open>v\<close>): the elements of a \<open>list\<close>, the keys of a
  \<open>dict\<close>, the characters of a \<open>str\<close> as one-character strings; \<open>None\<close>, a \<open>bool\<close> and a
  number are not iterable (\<open>TypeError\<close>).
\<close>

definition py_iter :: "json \<Rightarrow> error + json list" where
  "py_iter v =
     (case v of
        JArr xs \<Rightarrow> Inr xs
      | JObj d \<Rightarrow> Inr (map (\<lambda>kv. JStr (fst kv)) d)
      | JStr s \<Rightarrow> Inr (map (\<lambda>c. JStr [c]) s)
      | _ \<Rightarrow> Inl TypeError)"

section \<open>Character classes of \<open>str\<close>\<close>

text \<open>
  \<open>str.isdigit\<close> is true of a character whose Unicode property \<open>Numeric_Type\<close> is
  \<open>Decimal\<close> or \<open>Digit\<close>; \<open>int\<close> accepts the \<open>Decimal\<close> ones with their digit value.
  The decimal digits come in runs of ten consecutive code points, \<open>decimal_zeros\<close> lists
  the zero of each run; \<open>digit_other\<close> lists the ranges of the characters that are
  \<open>Digit\<close> but not \<open>Decimal\<close> (superscripts, circled digits and the like). Both tables
  are those of Unicode 14.0 (CPython 3.11); on ASCII they are \<open>0\<close> to \<open>9\<close> in every version.
\<close>

definition decimal_zeros :: "nat list" where
  "decimal_zeros =
    [0x30, 0x660, 0x6F0, 0x7C0, 0x966, 0x9E6, 0xA66, 0xAE6,
     0xB66, 0xBE6, 0xC66, 0xCE6, 0xD66, 0xDE6, 0xE50, 0xED0,
     0xF20, 0x1040, 0x1090, 0x17E0, 0x1810, 0x1946, 0x19D0, 0x1A80,
     0x1A90, 0x1B50, 0x1BB0, 0x1C40, 0x1C50, 0xA620, 0xA8D0, 0xA900,
     0xA9D0, 0xA9F0, 0xAA50, 0xABF0, 0xFF10, 0x104A0, 0x10D30, 0x11066,
     0x110F0, 0x11136, 0x111D0, 0x112F0, 0x11450, 0x114D0, 0x11650, 0x116C0,
     0x11730, 0x118E0, 0x11950, 0x11C50, 0x11D50, 0x11DA0, 0x16A60, 0x16AC0,
     0x16B50, 0x1D7CE, 0x1D7D8, 0x1D7E2, 0x1D7EC, 0x1D7F6, 0x1E140, 0x1E2F0,
     0x1E950, 0x1FBF0]"

definition digit_other :: "(nat \<times> nat) list" where
  "digit_other =
    [(0xB2, 0xB3), (0xB9, 0xB9), (0x1369, 0x1371), (0x19DA, 0x19DA),
     (0x2070, 0x2070), (0x2074, 0x2079), (0x2080, 0x2089), (0x2460, 0x2468),
     (0x2474, 0x247C), (0x2488, 0x2490), (0x24EA, 0x24EA), (0x24F5, 0x24FD),
     (0x24FF, 0x24FF), (0x2776, 0x277E), (0x2780, 0x2788), (0x278A, 0x2792),
     (0x10A40, 0x10A43), (0x10E60, 0x10E68), (0x11052, 0x1105A), (0x1F100, 0x1F10A)]"

definition decimal_value :: "nat \<Rightarrow> nat option" where
  "decimal_value c =
     map_option (\<lambda>z. c - z) (find (\<lambda>z. z \<le> c \<and> c \<le> z + 9) decimal_zeros)"

definition isdigit :: "nat \<Rightarrow> bool" where
  "isdigit c = (decimal_value c \<noteq> None \<or> list_ex (\<lambda>(lo, hi). lo \<le> c \<and> c \<le> hi) digit_other)"

text \<open>\<open>s.isdigit()\<close> on a whole string: at least one character, and all of them digits.\<close>

definition str_isdigit :: "pystr \<Rightarrow> bool" where
  "str_isdigit s = (s \<noteq> [] \<and> list_all isdigit s)"

definition startswith :: "pystr \<Rightarrow> pystr \<Rightarrow> bool" where
  "startswith s p = (take (length p) s = p)"

section \<open>PhoneValidator: \<open>is_valid_indian_phone_number\<close>\<close>

text \<open>
  \<open>''.join(c for c in phone_number if c.isdigit())\<close>. The generator iterates whatever it
  is given; an element that is not a \<open>str\<close> has no \<open>isdigit\<close> (\<open>AttributeError\<close>). The
  elements kept are concatenated.
\<close>

definition elem_isdigit :: "json \<Rightarrow> error + bool" where
  "elem_isdigit c = (case c of JStr e \<Rightarrow> Inr (str_isdigit e) | _ \<Rightarrow> Inl AttributeError)"

fun keep_digits :: "json list \<Rightarrow> error + pystr" where
  "keep_digits [] = Inr []"
| "keep_digits (c # cs) =
     bindE (elem_isdigit c) (\<lambda>d.
     bindE (keep_digits cs) (\<lambda>r.
       Inr (if d then (case c of JStr e \<Rightarrow> e @ r | _ \<Rightarrow> r) else r)))"

definition digits_only :: "json \<Rightarrow> error + pystr" where
  "digits_only phone_number = bindE (py_iter phone_number) keep_digits"

definition is_valid_indian_phone_number :: "json \<Rightarrow> error + bool" where
  "is_valid_indian_phone_number phone_number =
     (if phone_number = JNull then Inr False
      else bindE (digits_only phone_number) (\<lambda>p.
        Inr (length p = 10 \<and> (startswith p (str ''91'') \<or> startswith p (str ''+91'')))))"

text \<open>The same function with the disjunct \<open>startswith('+91')\<close> deleted.\<close>

definition is_valid_without_plus :: "json \<Rightarrow> error + bool" where
  "is_valid_without_plus phone_number =
     (if phone_number = JNull then Inr False
      else bindE (digits_only phone_number) (\<lambda>p.
        Inr (length p = 10 \<and> startswith p (str ''91''))))"

text \<open>The ASCII digits \<open>0\<close> to \<open>9\<close>.\<close>

definition ascii_digit :: "nat \<Rightarrow> bool" where
  "ascii_digit c = (48 \<le> c \<and> c \<le> 57)"

section \<open>AgeCalculator: \<open>calculate_age\<close>\<close>

text \<open>\<open>s.split(sep)\<close> for a one-character separator: the pieces between its occurrences.\<close>

fun split :: "nat \<Rightarrow> pystr \<Rightarrow> pystr list" where
  "split sep [] = [[]]"
| "split sep (c # cs) =
     (if c = sep then [] # split sep cs
      else (case split sep cs of [] \<Rightarrow> [[c]] | w # ws \<Rightarrow> (c # w) # ws))"

text \<open>\<open>xs[0]\<close> raises \<open>IndexError\<close> on an empty list.\<close>

definition index0 :: "'a list \<Rightarrow> error + 'a" where
  "index0 xs = (case xs of [] \<Rightarrow> Inl IndexError | x # _ \<Rightarrow> Inr x)"

text \<open>
  \<open>int(s)\<close> for a \<open>str\<close>, base ten: whitespace around, an optional sign directly before the
  digits, decimal digits of any script with single underscores between them, nothing
  else; more than \<open>int_max_str_digits\<close> digits are refused (CPython's default limit).
  Every failure is a \<open>ValueError\<close>. The whitespace \<open>int\<close> skips is that of \<open>str.isspace\<close>
  without the four separators \<open>0x1C\<close> to \<open>0x1F\<close>.
\<close>

definition int_space :: "nat \<Rightarrow> bool" where
  "int_space c =
     ((9 \<le> c \<and> c \<le> 13) \<or> c = 32 \<or> c = 0x85 \<or> c = 0xA0 \<or> c = 0x1680
      \<or> (0x2000 \<le> c \<and> c \<le> 0x200A) \<or> c = 0x2028 \<or> c = 0x2029 \<or> c = 0x202F
      \<or> c = 0x205F \<or> c = 0x3000)"

definition int_max_str_digits :: nat where
  "int_max_str_digits = 4300"

definition digit_or_underscore :: "nat \<Rightarrow> bool" where
  "digit_or_underscore c = (decimal_value c \<noteq> None \<or> c = 95)"

fun double_underscore :: "pystr \<Rightarrow> bool" where
  "double_underscore (a # b # cs) = ((a = 95 \<and> b = 95) \<or> double_underscore (b # cs))"
| "double_underscore _ = False"

definition digits_value :: "pystr \<Rightarrow> int" where
  "digits_value body =
     foldl (\<lambda>v c. case decimal_value c of None \<Rightarrow> v | Some d \<Rightarrow> 10 * v + int d) 0 body"

definition py_int :: "pystr \<Rightarrow> error + int" where
  "py_int s =
     (let t = dropWhile int_space s;
          neg = (take 1 t = [45]);
          u = (if take 1 t = [45] \<or> take 1 t = [43] then drop 1 t else t);
          body = takeWhile digit_or_underscore u;
          rest = dropWhile digit_or_underscore u
      in if body = [] \<or> hd body = 95 \<or> last body = 95 \<or> double_underscore body
            \<or> \<not> list_all int_space rest
            \<or> length (filter (\<lambda>c. c \<noteq> 95) body) > int_max_str_digits
         then Inl ValueError
         else Inr (if neg then - digits_value body else digits_value body))"

text \<open>
  \<open>calculate_age\<close>; \<open>today_year\<close> is \<open>date.today().year\<close>, the one reading of the clock.
  The result is a Python value: an \<open>int\<close> or \<open>None\<close>. Only \<open>ValueError\<close> is caught. A value
  that is neither \<open>None\<close> nor a \<open>str\<close> has no \<open>split\<close>: \<open>AttributeError\<close>.
\<close>

definition calculate_age :: "int \<Rightarrow> json \<Rightarrow> error + json" where
  "calculate_age today_year birth_date =
     (case birth_date of
        JNull \<Rightarrow> Inr JNull
      | JStr s \<Rightarrow>
          (case bindE (index0 (split 45 s)) py_int of
             Inr birth_year \<Rightarrow> Inr (JInt (today_year - birth_year))
           | Inl ValueError \<Rightarrow> Inr JNull
           | Inl e \<Rightarrow> Inl e)
      | _ \<Rightarrow> Inl AttributeError)"

section \<open>Hashing: \<open>sha256(s.encode('utf-8')).hexdigest()\<close>\<close>

text \<open>
  \<open>str.encode('utf-8')\<close>: one to four bytes per code point; a surrogate
  (\<open>0xD800\<close> to \<open>0xDFFF\<close>, which \<open>json.load\<close> can produce from an escape) raises
  \<open>UnicodeEncodeError\<close>. Numbers from \<open>0x110000\<close> on are not code points and never reach
  the encoder; the model refuses them as well.
\<close>

type_synonym byte = "8 word"
type_synonym u32 = "32 word"

definition utf8_char :: "nat \<Rightarrow> error + nat list" where
  "utf8_char c =
     (if c < 0x80 then Inr [c]
      else if c < 0x800 then Inr [0xC0 + c div 0x40, 0x80 + c mod 0x40]
      else if 0xD800 \<le> c \<and> c \<le> 0xDFFF then Inl UnicodeEncodeError
      else if c < 0x10000 then
        Inr [0xE0 + c div 0x1000, 0x80 + (c div 0x40) mod 0x40, 0x80 + c mod 0x40]
      else if c < 0x110000 then
        Inr [0xF0 + c div 0x40000, 0x80 + (c div 0x1000) mod 0x40,
             0x80 + (c div 0x40) mod 0x40, 0x80 + c mod 0x40]
      else Inl UnicodeEncodeError)"

definition encode_utf8 :: "pystr \<Rightarrow> error + byte list" where
  "encode_utf8 s = bindE (mapE utf8_char s) (\<lambda>bs. Inr (map of_nat (concat bs)))"

text \<open>SHA-256 (FIPS 180-4), the function behind \<open>hashlib.sha256\<close>.\<close>

definition sha_K :: "u32 list" where
  "sha_K =
    [0x428A2F98, 0x71374491, 0xB5C0FBCF, 0xE9B5DBA5, 0x3956C25B, 0x59F111F1,
     0x923F82A4, 0xAB1C5ED5, 0xD807AA98, 0x12835B01, 0x243185BE, 0x550C7DC3,
     0x72BE5D74, 0x80DEB1FE, 0x9BDC06A7, 0xC19BF174, 0xE49B69C1, 0xEFBE4786,
     0x0FC19DC6, 0x240CA1CC, 0x2DE92C6F, 0x4A7484AA, 0x5CB0A9DC, 0x76F988DA,
     0x983E5152, 0xA831C66D, 0xB00327C8, 0xBF597FC7, 0xC6E00BF3, 0xD5A79147,
     0x06CA6351, 0x14292967, 0x27B70A85, 0x2E1B2138, 0x4D2C6DFC, 0x53380D13,
     0x650A7354, 0x766A0ABB, 0x81C2C92E, 0x92722C85, 0xA2BFE8A1, 0xA81A664B,
     0xC24B8B70, 0xC76C51A3, 0xD192E819, 0xD6990624, 0xF40E3585, 0x106AA070,
     0x19A4C116, 0x1E376C08, 0x2748774C, 0x34B0BCB5, 0x391C0CB3, 0x4ED8AA4A,
     0x5B9CCA4F, 0x682E6FF3, 0x748F82EE, 0x78A5636F, 0x84C87814, 0x8CC70208,
     0x90BEFFFA, 0xA4506CEB, 0xBEF9A3F7, 0xC67178F2]"

definition sha_H0 :: "u32 list" where
  "sha_H0 =
    [0x6A09E667, 0xBB67AE85, 0x3C6EF372, 0xA54FF53A,
     0x510E527F, 0x9B05688C, 0x1F83D9AB, 0x5BE0CD19]"

definition rotr :: "nat \<Rightarrow> u32 \<Rightarrow> u32" where
  "rotr n x = (drop_bit n x) OR (push_bit (32 - n) x)"

definition Ch :: "u32 \<Rightarrow> u32 \<Rightarrow> u32 \<Rightarrow> u32" where
  "Ch x y z = (x AND y) XOR (NOT x AND z)"

definition Maj :: "u32 \<Rightarrow> u32 \<Rightarrow> u32 \<Rightarrow> u32" where
  "Maj x y z = (x AND y) XOR (x AND z) XOR (y AND z)"

definition Sigma0 :: "u32 \<Rightarrow> u32" where
  "Sigma0 x = rotr 2 x XOR rotr 13 x XOR rotr 22 x"

definition Sigma1 :: "u32 \<Rightarrow> u32" where
  "Sigma1 x = rotr 6 x XOR rotr 11 x XOR rotr 25 x"

definition sigma0 :: "u32 \<Rightarrow> u32" where
  "sigma0 x = rotr 7 x XOR rotr 18 x XOR drop_bit 3 x"

definition sigma1 :: "u32 \<Rightarrow> u32" where
  "sigma1 x = rotr 17 x XOR rotr 19 x XOR drop_bit 10 x"

text \<open>The padded message: the bytes, \<open>0x80\<close>, zeros up to 56 modulo 64, the bit length in 8 bytes.\<close>

definition be_bytes :: "nat \<Rightarrow> nat \<Rightarrow> byte list" where
  "be_bytes k n = map (\<lambda>i. of_nat (n div 256 ^ (k - 1 - i))) [0..<k]"

definition sha_pad :: "byte list \<Rightarrow> byte list" where
  "sha_pad m =
     m @ [0x80] @ replicate ((119 - length m mod 64) mod 64) 0 @ be_bytes 8 (8 * length m)"

definition be_word :: "byte list \<Rightarrow> u32" where
  "be_word bs = foldl (\<lambda>w b. push_bit 8 w OR ucast b) 0 bs"

fun chunks :: "nat \<Rightarrow> nat \<Rightarrow> 'a list \<Rightarrow> 'a list list" where
  "chunks 0 n xs = []"
| "chunks (Suc k) n xs = take n xs # chunks k n (drop n xs)"

fun schedule :: "nat \<Rightarrow> u32 list \<Rightarrow> u32 list" where
  "schedule 0 w = w"
| "schedule (Suc k) w =
     schedule k (w @ [sigma1 (w ! (length w - 2)) + w ! (length w - 7)
                      + sigma0 (w ! (length w - 15)) + w ! (length w - 16)])"

definition sha_round :: "u32 list \<Rightarrow> u32 \<times> u32 \<Rightarrow> u32 list" where
  "sha_round v kw =
     (let a = v ! 0; b = v ! 1; c = v ! 2; d = v ! 3;
          e = v ! 4; f = v ! 5; g = v ! 6; h = v ! 7;
          t1 = h + Sigma1 e + Ch e f g + fst kw + snd kw;
          t2 = Sigma0 a + Maj a b c
      in [t1 + t2, a, b, c, d + t1, e, f, g])"

definition compress :: "u32 list \<Rightarrow> byte list \<Rightarrow> u32 list" where
  "compress hs block =
     map2 (+) hs (foldl sha_round hs (zip sha_K (schedule 48 (map be_word (chunks 16 4 block)))))"

definition sha256 :: "byte list \<Rightarrow> u32 list" where
  "sha256 m = foldl compress sha_H0 (chunks (length (sha_pad m) div 64) 64 (sha_pad m))"

definition hex_digit :: "nat \<Rightarrow> nat" where
  "hex_digit n = (if n < 10 then 48 + n else 87 + n)"

definition hex_word :: "u32 \<Rightarrow> pystr" where
  "hex_word w = map (\<lambda>i. hex_digit (unat (drop_bit (4 * (7 - i)) w) mod 16)) [0..<8]"

definition sha256_hexdigest :: "byte list \<Rightarrow> pystr" where
  "sha256_hexdigest m = concat (map hex_word (sha256 m))"

section \<open>RecordNormalizer: the loop body of \<open>process_json_data\<close>\<close>

text \<open>
  \<open>processed_item\<close> is a Python dict, built key by key; it is modelled as it is built.
  \<open>d[k] = v\<close> replaces the value of a key in place, or appends a new key at the end.
\<close>

type_synonym dict = "(pystr \<times> json) list"

fun setitem :: "dict \<Rightarrow> pystr \<Rightarrow> json \<Rightarrow> dict" where
  "setitem [] k v = [(k, v)]"
| "setitem ((k', v') # d) k v = (if k' = k then (k, v) # d else (k', v') # setitem d k v)"

text \<open>\<open>d[k]\<close> and \<open>d.pop(k)\<close> raise \<open>KeyError\<close> on a missing key.\<close>

definition getitem :: "dict \<Rightarrow> pystr \<Rightarrow> error + json" where
  "getitem d k = (case map_of d k of None \<Rightarrow> Inl (KeyError k) | Some v \<Rightarrow> Inr v)"

definition pop_item :: "dict \<Rightarrow> pystr \<Rightarrow> error + json \<times> dict" where
  "pop_item d k =
     (case map_of d k of
        None \<Rightarrow> Inl (KeyError k)
      | Some v \<Rightarrow> Inr (v, filter (\<lambda>kv. fst kv \<noteq> k) d))"

text \<open>
  \<open>x.get(k, default)\<close>: the value stored under \<open>k\<close>, which may be \<open>None\<close>; the default only
  when the key is absent. Only a dict has \<open>get\<close>: on \<open>None\<close>, a number, a string or a list
  the call raises \<open>AttributeError\<close>.
\<close>

definition dict_get :: "json \<Rightarrow> pystr \<Rightarrow> json \<Rightarrow> error + json" where
  "dict_get x k dflt =
     (case x of
        JObj d \<Rightarrow> Inr (case map_of d k of None \<Rightarrow> dflt | Some v \<Rightarrow> v)
      | _ \<Rightarrow> Inl AttributeError)"

text \<open>\<open>sep.join(items)\<close>: every item must be a \<open>str\<close>, otherwise \<open>TypeError\<close>.\<close>

fun join :: "pystr \<Rightarrow> json list \<Rightarrow> error + pystr" where
  "join sep [] = Inr []"
| "join sep [x] = (case x of JStr s \<Rightarrow> Inr s | _ \<Rightarrow> Inl TypeError)"
| "join sep (x # y # ys) =
     (case x of
        JStr s \<Rightarrow> bindE (join sep (y # ys)) (\<lambda>r. Inr (s @ sep @ r))
      | _ \<Rightarrow> Inl TypeError)"

text \<open>Truth value of a Python object, as \<open>if x:\<close> takes it.\<close>

definition truthy :: "json \<Rightarrow> bool" where
  "truthy x =
     (case x of
        JNull \<Rightarrow> False
      | JBool b \<Rightarrow> b
      | JInt n \<Rightarrow> n \<noteq> 0
      | JFloat w \<Rightarrow> push_bit 1 w \<noteq> 0
      | JStr s \<Rightarrow> s \<noteq> []
      | JArr xs \<Rightarrow> xs \<noteq> []
      | JObj d \<Rightarrow> d \<noteq> [])"

text \<open>\<open>x.encode('utf-8')\<close>: only a \<open>str\<close> has \<open>encode\<close>.\<close>

definition py_encode :: "json \<Rightarrow> error + byte list" where
  "py_encode x = (case x of JStr s \<Rightarrow> encode_utf8 s | _ \<Rightarrow> Inl AttributeError)"

text \<open>
  The body of the loop, in the order of the source, one definition per block of the
  source. The two \<open>print\<close> calls write to the console and change no value; they are left
  out.
\<close>

text \<open>Lines 69 to 71: \<open>appointmentId\<close> and \<open>phoneNumber\<close>.\<close>

definition extract_ids :: "json \<Rightarrow> error + dict" where
  "extract_ids item =
     bindE (dict_get item (str ''appointmentId'') JNull) (\<lambda>a.
     bindE (dict_get item (str ''phoneNumber'') JNull) (\<lambda>p.
       Inr (setitem (setitem [] (str ''appointmentId'') a) (str ''phoneNumber'') p)))"

text \<open>Lines 73 to 78: the patient details.\<close>

definition extract_patient :: "json \<Rightarrow> dict \<Rightarrow> error + dict" where
  "extract_patient item processed_item =
     bindE (dict_get item (str ''patientDetails'') (JObj [])) (\<lambda>patient_details.
     bindE (dict_get patient_details (str ''firstName'') JNull) (\<lambda>f.
     bindE (dict_get patient_details (str ''lastName'') JNull) (\<lambda>l.
     bindE (dict_get patient_details (str ''gender'') JNull) (\<lambda>g.
     bindE (dict_get patient_details (str ''birthDate'') JNull) (\<lambda>b.
       Inr (setitem (setitem (setitem (setitem processed_item
              (str ''firstName'') f) (str ''lastName'') l) (str ''gender'') g)
              (str ''birthDate'') b))))))"

text \<open>Lines 80 to 82: the gender code.\<close>

definition transform_gender :: "dict \<Rightarrow> error + dict" where
  "transform_gender processed_item =
     bindE (getitem processed_item (str ''gender'')) (\<lambda>g.
       Inr (setitem processed_item (str ''gender'')
              (JStr (if g = JStr (str ''M'') then str ''male''
                     else if g = JStr (str ''F'') then str ''female''
                     else str ''others''))))"

text \<open>Lines 84 to 86: \<open>birthDate\<close> becomes \<open>DOB\<close>, and \<open>Age\<close> is computed from it.\<close>

definition rename_birth_date :: "int \<Rightarrow> dict \<Rightarrow> error + dict" where
  "rename_birth_date today_year processed_item =
     bindE (pop_item processed_item (str ''birthDate'')) (\<lambda>(b, d).
     bindE (getitem (setitem d (str ''DOB'') b) (str ''DOB'')) (\<lambda>dob.
     bindE (calculate_age today_year dob) (\<lambda>age.
       Inr (setitem (setitem d (str ''DOB'') b) (str ''Age'') age))))"

text \<open>Lines 88 to 99: \<open>medicines\<close>, replaced by the empty list when it is not a list.\<close>

definition extract_medicines :: "json \<Rightarrow> dict \<Rightarrow> error + dict" where
  "extract_medicines item processed_item =
     bindE (dict_get item (str ''consultationData'') (JObj [])) (\<lambda>consultation_data.
     bindE (dict_get consultation_data (str ''medicines'') (JArr [])) (\<lambda>medicines.
       Inr (setitem processed_item (str ''medicines'')
              (case medicines of JArr xs \<Rightarrow> JArr xs | _ \<Rightarrow> JArr []))))"

text \<open>
  Line 102: \<open>' '.join([processed_item.get('firstName', ''), processed_item.get('lastName', '')])\<close>.
  The lookup is in \<open>processed_item\<close>, where both keys were stored on lines 75 and 76.
\<close>

definition derive_full_name :: "dict \<Rightarrow> error + dict" where
  "derive_full_name processed_item =
     bindE (dict_get (JObj processed_item) (str ''firstName'') (JStr [])) (\<lambda>f.
     bindE (dict_get (JObj processed_item) (str ''lastName'') (JStr [])) (\<lambda>l.
     bindE (join (str '' '') [f, l]) (\<lambda>full_name.
       Inr (setitem processed_item (str ''fullName'') (JStr full_name)))))"

text \<open>Lines 104 to 112: \<open>isValidMobile\<close> and \<open>phoneNumberHash\<close>.\<close>

definition derive_is_valid_mobile :: "dict \<Rightarrow> error + dict" where
  "derive_is_valid_mobile processed_item =
     bindE (getitem processed_item (str ''phoneNumber'')) (\<lambda>p.
     bindE (is_valid_indian_phone_number p) (\<lambda>v.
       Inr (setitem processed_item (str ''isValidMobile'') (JBool v))))"

definition derive_phone_hash :: "dict \<Rightarrow> error + dict" where
  "derive_phone_hash processed_item =
     bindE (getitem processed_item (str ''isValidMobile'')) (\<lambda>v.
       if truthy v then
         bindE (getitem processed_item (str ''phoneNumber'')) (\<lambda>p.
         bindE (py_encode p) (\<lambda>bs.
           Inr (setitem processed_item (str ''phoneNumberHash'') (JStr (sha256_hexdigest bs)))))
       else Inr (setitem processed_item (str ''phoneNumberHash'') JNull))"

definition process_item :: "int \<Rightarrow> json \<Rightarrow> error + dict" where
  "process_item today_year item =
     bindE (extract_ids item) (\<lambda>p.
     bindE (extract_patient item p) (\<lambda>p.
     bindE (transform_gender p) (\<lambda>p.
     bindE (rename_birth_date today_year p) (\<lambda>p.
     bindE (extract_medicines item p) (\<lambda>p.
     bindE (derive_full_name p) (\<lambda>p.
     bindE (derive_is_valid_mobile p) derive_phone_hash))))))"

section \<open>The data frame\<close>

text \<open>
  A cell of a frame holds a Python value or pandas' missing value \<open>NaN\<close>. A frame built
  from a list of dicts has the dicts as rows and their keys, in order of first
  appearance, as columns: a frame built from the empty list has no column at all. A
  column lacking in a row reads as \<open>NaN\<close> there, and \<open>dataframe[name]\<close> raises \<open>KeyError\<close>
  for a name that is not a column.
\<close>

datatype cell = NaN | Val json

record DataFrame =
  columns :: "pystr list"
  rows :: "dict list"

definition pd_DataFrame :: "dict list \<Rightarrow> DataFrame" where
  "pd_DataFrame data =
     \<lparr>columns = rev (remdups (rev (concat (map (map fst) data)))), rows = data\<rparr>"

text \<open>
  \<open>process_json_data\<close> from the decoded document on (reading the file, and the \<open>None\<close> it
  returns when the file is not JSON, are outside): the loop over \<open>data\<close>, then
  \<open>pd.DataFrame(processed_data)\<close>.
\<close>

definition process_json_data :: "int \<Rightarrow> json \<Rightarrow> error + DataFrame" where
  "process_json_data today_year data =
     bindE (py_iter data) (\<lambda>items.
     bindE (mapE (process_item today_year) items) (\<lambda>processed_data.
       Inr (pd_DataFrame processed_data)))"

definition column :: "DataFrame \<Rightarrow> pystr \<Rightarrow> error + cell list" where
  "column df name =
     (if List.member (columns df) name
      then Inr (map (\<lambda>r. case map_of r name of None \<Rightarrow> NaN | Some v \<Rightarrow> Val v) (rows df))
      else Inl (KeyError name))"

text \<open>\<open>None\<close> and \<open>NaN\<close> are the missing values: \<open>value_counts\<close> drops them.\<close>

definition isna :: "cell \<Rightarrow> bool" where
  "isna c = (c = NaN \<or> c = Val JNull)"

text \<open>
  \<open>series.value_counts().to_dict()\<close>: each value that occurs and is not missing, with the
  number of its occurrences. The two columns counted hold \<open>int\<close>s (\<open>Age\<close>) or \<open>str\<close>s
  (\<open>gender\<close>). An \<open>Age\<close> column with a \<open>None\<close> in it is stored by pandas as floats; the
  float of an \<open>int\<close> is the same dict key as long as it is exact, so the keys are kept as
  \<open>int\<close>s, and a column where this may fail (a \<open>None\<close> beside an \<open>int\<close> beyond \<open>2^53\<close>) is
  answered \<open>NotModelled\<close>.
\<close>

definition exact_as_float :: "cell \<Rightarrow> bool" where
  "exact_as_float c = (case c of Val (JInt n) \<Rightarrow> \<bar>n\<bar> \<le> 2 ^ 53 | _ \<Rightarrow> True)"

definition value_counts :: "cell list \<Rightarrow> error + (json \<rightharpoonup> nat)" where
  "value_counts xs =
     (if list_ex isna xs \<and> \<not> list_all exact_as_float xs then Inl NotModelled
      else Inr (\<lambda>v. if List.member xs (Val v) \<and> \<not> isna (Val v)
                     then Some (count_list xs (Val v)) else None))"

text \<open>
  \<open>series.sum()\<close> over a column of \<open>bool\<close>s: the number of \<open>True\<close>s, \<open>0\<close> for the empty
  column. What pandas makes of a column with other values in it depends on the dtype it
  infers and is answered \<open>NotModelled\<close>.
\<close>

definition is_bool :: "cell \<Rightarrow> bool" where
  "is_bool c = (case c of Val (JBool b) \<Rightarrow> True | _ \<Rightarrow> False)"

definition series_sum :: "cell list \<Rightarrow> error + nat" where
  "series_sum xs =
     (if list_all is_bool xs then Inr (length (filter (\<lambda>c. c = Val (JBool True)) xs))
      else Inl NotModelled)"

text \<open>
  \<open>series.explode()\<close>: every element of a list becomes a row of its own, an empty list
  becomes one \<open>NaN\<close> row, a scalar stays as it is. (A dict cell is answered
  \<open>NotModelled\<close>; the \<open>medicines\<close> column of the pipeline holds lists only.)
\<close>

definition explode_cell :: "cell \<Rightarrow> error + cell list" where
  "explode_cell c =
     (case c of
        Val (JArr xs) \<Rightarrow> Inr (if xs = [] then [NaN] else map Val xs)
      | Val (JObj d) \<Rightarrow> Inl NotModelled
      | _ \<Rightarrow> Inr [c])"

definition explode :: "cell list \<Rightarrow> error + cell list" where
  "explode xs = bindE (mapE explode_cell xs) (\<lambda>ys. Inr (concat ys))"

section \<open>Aggregator: \<open>generate_aggregated_data\<close>\<close>

text \<open>The inner function \<open>count_medicines\<close>, applied by line 151 to each exploded row.\<close>

definition count_medicines :: "cell \<Rightarrow> nat" where
  "count_medicines meds = (case meds of Val (JArr xs) \<Rightarrow> length xs | _ \<Rightarrow> 0)"

text \<open>
  Line 153, \<open>lambda medicine: medicine.get('IsActive', False)\<close>, applied to each exploded
  row: \<open>NaN\<close> is a float and has no \<open>get\<close>.
\<close>

definition is_active :: "cell \<Rightarrow> error + cell" where
  "is_active medicine =
     (case medicine of
        NaN \<Rightarrow> Inl AttributeError
      | Val v \<Rightarrow> bindE (dict_get v (str ''IsActive'') (JBool False)) (\<lambda>a. Inr (Val a)))"

text \<open>Line 151: \<open>dataframe['medicines'].explode().apply(count_medicines).sum()\<close>.\<close>

definition total_medicines :: "DataFrame \<Rightarrow> error + nat" where
  "total_medicines dataframe =
     bindE (column dataframe (str ''medicines'')) (\<lambda>col.
     bindE (explode col) (\<lambda>entries.
       Inr (sum_list (map count_medicines entries))))"

text \<open>Lines 152 to 154: \<open>dataframe['medicines'].explode().apply(lambda ...).sum()\<close>.\<close>

definition active_medicines :: "DataFrame \<Rightarrow> error + nat" where
  "active_medicines dataframe =
     bindE (column dataframe (str ''medicines'')) (\<lambda>col.
     bindE (explode col) (\<lambda>entries.
     bindE (mapE is_active entries) series_sum))"

text \<open>
  The dict the function returns has six fixed keys; it is a record here (\<open>agg_Age\<close> for
  the key \<open>Age\<close>, and so on). Its entries are evaluated in the order written, and the first
  exception ends the call.
\<close>

record AggregateSummary =
  agg_Age :: "json \<rightharpoonup> nat"
  agg_gender :: "json \<rightharpoonup> nat"
  agg_validPhoneNumbers :: nat
  agg_appointments :: nat
  agg_medicines :: nat
  agg_activeMedicines :: nat

definition generate_aggregated_data :: "DataFrame \<Rightarrow> error + AggregateSummary" where
  "generate_aggregated_data dataframe =
     bindE (bindE (column dataframe (str ''Age'')) value_counts) (\<lambda>ages.
     bindE (bindE (column dataframe (str ''gender'')) value_counts) (\<lambda>genders.
     bindE (bindE (column dataframe (str ''isValidMobile'')) series_sum) (\<lambda>valid.
     bindE (total_medicines dataframe) (\<lambda>meds.
     bindE (active_medicines dataframe) (\<lambda>active.
       Inr \<lparr>agg_Age = ages, agg_gender = genders, agg_validPhoneNumbers = valid,
            agg_appointments = length (rows dataframe), agg_medicines = meds,
            agg_activeMedicines = active\<rparr>)))))"

section \<open>Sample inputs\<close>

text \<open>
  A raw appointment with every field present, a valid phone number and two medicine
  entries, one of them not a mapping; and the canonical record the loop body makes of it
  in 2026.
\<close>

definition example_record :: json where
  "example_record =
     JObj [(str ''appointmentId'', JStr (str ''a1'')),
           (str ''phoneNumber'', JStr (str ''9199999999'')),
           (str ''patientDetails'',
              JObj [(str ''firstName'', JStr (str ''Jane'')),
                    (str ''lastName'', JStr (str ''Doe'')),
                    (str ''gender'', JStr (str ''F'')),
                    (str ''birthDate'', JStr (str ''1990-05-01''))]),
           (str ''consultationData'',
              JObj [(str ''medicines'',
                       JArr [JObj [(str ''IsActive'', JBool True)], JStr (str ''x'')])])]"

definition example_canonical :: dict where
  "example_canonical =
     [(str ''appointmentId'', JStr (str ''a1'')),
      (str ''phoneNumber'', JStr (str ''9199999999'')),
      (str ''firstName'', JStr (str ''Jane'')),
      (str ''lastName'', JStr (str ''Doe'')),
      (str ''gender'', JStr (str ''female'')),
      (str ''DOB'', JStr (str ''1990-05-01'')),
      (str ''Age'', JInt 36),
      (str ''medicines'', JArr [JObj [(str ''IsActive'', JBool True)], JStr (str ''x'')]),
      (str ''fullName'', JStr (str ''Jane Doe'')),
      (str ''isValidMobile'', JBool True),
      (str ''phoneNumberHash'', JStr (sha256_hexdigest (map of_nat (str ''9199999999''))))]"

text \<open>Raw appointments that carry a first name only: the last name missing, or \<open>null\<close>.\<close>

definition first_name_only :: json where
  "first_name_only =
     JObj [(str ''appointmentId'', JStr (str ''a2'')),
           (str ''patientDetails'', JObj [(str ''firstName'', JStr (str ''Jane''))])]"

definition last_name_null :: json where
  "last_name_null =
     JObj [(str ''appointmentId'', JStr (str ''a3'')),
           (str ''patientDetails'',
              JObj [(str ''firstName'', JStr (str ''Jane'')), (str ''lastName'', JNull)])]"

text \<open>
  A raw appointment with the two names and the given \<open>medicines\<close> list, and the canonical
  record the loop body makes of it.
\<close>

definition appointment_with :: "json list \<Rightarrow> json" where
  "appointment_with ms =
     JObj [(str ''patientDetails'',
              JObj [(str ''firstName'', JStr (str ''Jane'')),
                    (str ''lastName'', JStr (str ''Doe''))]),
           (str ''consultationData'', JObj [(str ''medicines'', JArr ms)])]"

definition canonical_with :: "json list \<Rightarrow> dict" where
  "canonical_with ms =
     [(str ''appointmentId'', JNull),
      (str ''phoneNumber'', JNull),
      (str ''firstName'', JStr (str ''Jane'')),
      (str ''lastName'', JStr (str ''Doe'')),
      (str ''gender'', JStr (str ''others'')),
      (str ''DOB'', JNull),
      (str ''Age'', JNull),
      (str ''medicines'', JArr ms),
      (str ''fullName'', JStr (str ''Jane Doe'')),
      (str ''isValidMobile'', JBool False),
      (str ''phoneNumberHash'', JNull)]"

definition active_entry :: json where
  "active_entry = JObj [(str ''IsActive'', JBool True)]"

section \<open>Reading a canonical record\<close>

text \<open>
  The \<open>medicines\<close> list of a canonical record. A medicine entry of the expected shape is
  a mapping whose \<open>IsActive\<close>, when present, is a \<open>bool\<close>; it is active when \<open>IsActive\<close> is
  \<open>True\<close>.
\<close>

definition medicines_of :: "dict \<Rightarrow> json list" where
  "medicines_of r = (case map_of r (str ''medicines'') of Some (JArr ms) \<Rightarrow> ms | _ \<Rightarrow> [])"

definition expected_shape :: "json \<Rightarrow> bool" where
  "expected_shape e =
     (case e of
        JObj d \<Rightarrow> (case map_of d (str ''IsActive'') of
                     None \<Rightarrow> True | Some (JBool b) \<Rightarrow> True | Some _ \<Rightarrow> False)
      | _ \<Rightarrow> False)"

definition active_shape :: "json \<Rightarrow> bool" where
  "active_shape e =
     (case e of JObj d \<Rightarrow> map_of d (str ''IsActive'') = Some (JBool True) | _ \<Rightarrow> False)"

section \<open>Properties of the phone validator\<close>

lemma bindE_Inl: "bindE (Inl e) f = Inl e"
  by (simp add: bindE_def)

lemma bindE_Inr: "bindE (Inr x) f = f x"
  by (simp add: bindE_def)

lemma bindE_eq_Inr: "(bindE m f = Inr y) = (\<exists>x. m = Inr x \<and> f x = Inr y)"
  by (cases m) (simp_all add: bindE_def)

lemma decimal_value_ascii:
  "c < 128 \<Longrightarrow> decimal_value c = (if 48 \<le> c \<and> c \<le> 57 then Some (c - 48) else None)"
  by (simp add: decimal_value_def decimal_zeros_def)

lemma isdigit_ascii: "c < 128 \<Longrightarrow> isdigit c = ascii_digit c"
  by (simp add: isdigit_def decimal_value_ascii digit_other_def ascii_digit_def)

lemma isdigit_superscript_two: "isdigit 0xB2"
  by (simp add: isdigit_def digit_other_def)

lemma filter_isdigit_ascii:
  "list_all (\<lambda>c. c < 128) s \<Longrightarrow> filter isdigit s = filter ascii_digit s"
  by (induction s) (simp_all add: isdigit_ascii)

lemma keep_digits_chars: "keep_digits (map (\<lambda>c. JStr [c]) s) = Inr (filter isdigit s)"
  by (induction s) (simp_all add: elem_isdigit_def str_isdigit_def bindE_Inr)

lemma digits_only_str: "digits_only (JStr s) = Inr (filter isdigit s)"
  by (simp add: digits_only_def py_iter_def bindE_Inr keep_digits_chars)

lemma keep_digits_all_digits: "keep_digits xs = Inr p \<Longrightarrow> list_all isdigit p"
proof (induction xs arbitrary: p)
  case Nil
  then show ?case by simp
next
  case (Cons c cs)
  from Cons.prems obtain d r where
    d: "elem_isdigit c = Inr d" and r: "keep_digits cs = Inr r"
    and p: "p = (if d then (case c of JStr e \<Rightarrow> e @ r | _ \<Rightarrow> r) else r)"
    by (auto simp: bindE_eq_Inr)
  have "list_all isdigit r" using Cons.IH r by simp
  moreover have "d \<Longrightarrow> \<exists>e. c = JStr e \<and> list_all isdigit e"
    using d by (cases c) (auto simp: elem_isdigit_def str_isdigit_def)
  ultimately show ?case using p by auto
qed

lemma digits_only_all_digits: "digits_only x = Inr p \<Longrightarrow> list_all isdigit p"
  by (auto simp: digits_only_def bindE_eq_Inr dest: keep_digits_all_digits)

lemma str_91: "str ''91'' = [57, 49]"
  by (simp add: str_def)

lemma str_plus_91: "str ''+91'' = [43, 57, 49]"
  by (simp add: str_def)

lemma not_startswith_plus: "list_all isdigit p \<Longrightarrow> \<not> startswith p (str ''+91'')"
proof
  assume a: "list_all isdigit p" and b: "startswith p (str ''+91'')"
  from b obtain q where "p = 43 # q"
    by (cases p) (auto simp: startswith_def str_plus_91)
  with a have "isdigit 43" by simp
  then show False by (simp add: isdigit_ascii ascii_digit_def)
qed

lemma startswith_91: "startswith p (str ''91'') = (take 2 p = str ''91'')"
  by (simp add: startswith_def str_91 numeral_2_eq_2)

text \<open>
  Claim C9. The disjunct \<open>phone_number.startswith('+91')\<close> is dead code: what is left
  after the filter holds digits only, and \<open>+\<close> is not a digit, so for every input (of any
  type) the function returns, or raises, exactly what the function without the disjunct
  does.
\<close>

theorem plus_91_disjunct_is_dead:
  "is_valid_indian_phone_number x = is_valid_without_plus x"
proof (cases "digits_only x")
  case (Inl e)
  then show ?thesis
    by (simp add: is_valid_indian_phone_number_def is_valid_without_plus_def bindE_Inl)
next
  case (Inr p)
  then have "\<not> startswith p (str ''+91'')"
    by (intro not_startswith_plus digits_only_all_digits)
  with Inr show ?thesis
    by (simp add: is_valid_indian_phone_number_def is_valid_without_plus_def bindE_Inr)
qed

lemma is_valid_str:
  "is_valid_indian_phone_number (JStr s) =
     Inr (length (filter isdigit s) = 10 \<and> take 2 (filter isdigit s) = str ''91'')"
proof -
  have "\<not> startswith (filter isdigit s) (str ''+91'')"
    by (rule not_startswith_plus) (simp add: list_all_iff)
  then show ?thesis
    by (simp add: is_valid_indian_phone_number_def digits_only_str bindE_Inr startswith_91)
qed

lemma is_valid_null: "is_valid_indian_phone_number JNull = Inr False"
  by (simp add: is_valid_indian_phone_number_def)

text \<open>
  Claim C6, as stated, fails: the filter is \<open>str.isdigit\<close>, which keeps digits outside
  ASCII. The ten ASCII digits \<open>9199999999\<close> followed by a superscript two are eleven
  digits for the code, which answers \<open>False\<close>, while the ASCII digits alone are ten and
  start with \<open>91\<close>.
\<close>

theorem unicode_digit_counterexample:
  "is_valid_indian_phone_number (JStr (str ''9199999999'' @ [0xB2])) = Inr False
   \<and> length (filter ascii_digit (str ''9199999999'' @ [0xB2])) = 10
   \<and> take 2 (filter ascii_digit (str ''9199999999'' @ [0xB2])) = str ''91''"
  by (simp add: is_valid_str str_def isdigit_ascii isdigit_superscript_two ascii_digit_def)

text \<open>
  Claim C6, amended. \<open>None\<close> gives \<open>False\<close>; a string gives \<open>True\<close> exactly when the
  characters that \<open>str.isdigit\<close> accepts are ten and start with \<open>91\<close>; the function does
  not raise on either; and on a string of ASCII characters the characters kept are
  exactly the ASCII digits.
\<close>

theorem phone_rule:
  "is_valid_indian_phone_number JNull = Inr False
   \<and> is_valid_indian_phone_number (JStr s) =
       Inr (length (filter isdigit s) = 10 \<and> take 2 (filter isdigit s) = str ''91'')
   \<and> (list_all (\<lambda>c. c < 128) s \<longrightarrow> filter isdigit s = filter ascii_digit s)"
  by (simp add: is_valid_null is_valid_str filter_isdigit_ascii)

theorem phone_rule_witness:
  "is_valid_indian_phone_number (JStr (str ''91-9999 9999'')) = Inr True
   \<and> is_valid_indian_phone_number (JStr (str ''+91 98765 43210'')) = Inr False
   \<and> is_valid_indian_phone_number (JStr []) = Inr False
   \<and> filter isdigit (str ''91-9999 9999'') = str ''9199999999''"
proof -
  have a: "list_all (\<lambda>c. c < 128) (str ''91-9999 9999'')" by (simp add: str_def)
  have b: "filter ascii_digit (str ''91-9999 9999'') = str ''9199999999''"
    by (simp add: str_def ascii_digit_def)
  have c: "list_all (\<lambda>c. c < 128) (str ''+91 98765 43210'')" by (simp add: str_def)
  have d: "filter ascii_digit (str ''+91 98765 43210'') = str ''919876543210''"
    by (simp add: str_def ascii_digit_def)
  from phone_rule [of "str ''91-9999 9999''"] a b
  have 1: "is_valid_indian_phone_number (JStr (str ''91-9999 9999'')) = Inr True"
    and 4: "filter isdigit (str ''91-9999 9999'') = str ''9199999999''"
    by (simp_all add: str_def)
  from phone_rule [of "str ''+91 98765 43210''"] c d
  have 2: "is_valid_indian_phone_number (JStr (str ''+91 98765 43210'')) = Inr False"
    by (simp add: str_def)
  from phone_rule [of "[]"]
  have 3: "is_valid_indian_phone_number (JStr []) = Inr False" by simp
  from 1 2 3 4 show ?thesis by simp
qed

section \<open>Properties of the age calculator\<close>

lemma split_nonempty: "split sep s \<noteq> []"
  by (induction s) (simp_all split: list.splits)

lemma hd_split: "hd (split sep s) = takeWhile (\<lambda>c. c \<noteq> sep) s"
  by (induction s) (auto simp: split_nonempty split: list.splits)

lemma index0_split: "index0 (split sep s) = Inr (takeWhile (\<lambda>c. c \<noteq> sep) s)"
  using split_nonempty [of sep s] hd_split [of sep s]
  by (cases "split sep s") (simp_all add: index0_def)

lemma py_int_error: "py_int s = Inl e \<Longrightarrow> e = ValueError"
  by (simp add: py_int_def Let_def split: if_splits)

lemma calculate_age_str:
  "calculate_age today_year (JStr s) =
     Inr (case py_int (takeWhile (\<lambda>c. c \<noteq> 45) s) of
            Inr birth_year \<Rightarrow> JInt (today_year - birth_year)
          | Inl e \<Rightarrow> JNull)"
proof (cases "py_int (takeWhile (\<lambda>c. c \<noteq> 45) s)")
  case (Inl e)
  then have "e = ValueError" by (rule py_int_error)
  with Inl show ?thesis
    by (simp add: calculate_age_def index0_split bindE_Inr)
next
  case (Inr b)
  then show ?thesis
    by (simp add: calculate_age_def index0_split bindE_Inr)
qed

text \<open>
  A birth date that is neither \<open>None\<close> nor a string (a JSON number, say) is outside the
  \<open>try\<close>'s reach: \<open>split\<close> does not exist and the \<open>AttributeError\<close> propagates.
\<close>

lemma calculate_age_number: "calculate_age today_year (JInt n) = Inl AttributeError"
  by (simp add: calculate_age_def)

lemmas py_int_eval =
  py_int_def Let_def int_space_def digit_or_underscore_def decimal_value_ascii
  digits_value_def int_max_str_digits_def

text \<open>
  Claim C8. \<open>calculate_age\<close> returns \<open>None\<close> for \<open>None\<close>. For a string it never raises: the
  first segment (the characters before the first \<open>-\<close>) is given to \<open>int\<close>; when that
  returns a birth year the result is the current year minus it, and on any parse failure
  (unparsable text, another separator, the empty string) the result is \<open>None\<close>.
\<close>

theorem calculate_age_total:
  "calculate_age today_year JNull = Inr JNull
   \<and> calculate_age today_year (JStr s) =
       Inr (case py_int (takeWhile (\<lambda>c. c \<noteq> 45) s) of
              Inr birth_year \<Rightarrow> JInt (today_year - birth_year)
            | Inl e \<Rightarrow> JNull)"
  by (simp add: calculate_age_str) (simp add: calculate_age_def)

theorem calculate_age_total_witness:
  "calculate_age 2026 (JStr (str ''1990-05-01'')) = Inr (JInt 36)
   \<and> calculate_age 2026 (JStr (str ''not-a-date'')) = Inr JNull
   \<and> calculate_age 2026 (JStr (str ''1990/05/01'')) = Inr JNull
   \<and> calculate_age 2026 (JStr []) = Inr JNull"
proof -
  have a: "py_int (takeWhile (\<lambda>c. c \<noteq> 45) (str ''1990-05-01'')) = Inr 1990"
    by (simp add: str_def py_int_eval)
  have b: "py_int (takeWhile (\<lambda>c. c \<noteq> 45) (str ''not-a-date'')) = Inl ValueError"
    by (simp add: str_def py_int_eval)
  have c: "py_int (takeWhile (\<lambda>c. c \<noteq> 45) (str ''1990/05/01'')) = Inl ValueError"
    by (simp add: str_def py_int_eval)
  have d: "py_int (takeWhile (\<lambda>c. c \<noteq> 45) []) = Inl ValueError"
    by (simp add: py_int_eval)
  from calculate_age_total [of 2026 "str ''1990-05-01''"] a
  have 1: "calculate_age 2026 (JStr (str ''1990-05-01'')) = Inr (JInt 36)" by simp
  from calculate_age_total [of 2026 "str ''not-a-date''"] b
  have 2: "calculate_age 2026 (JStr (str ''not-a-date'')) = Inr JNull" by simp
  from calculate_age_total [of 2026 "str ''1990/05/01''"] c
  have 3: "calculate_age 2026 (JStr (str ''1990/05/01'')) = Inr JNull" by simp
  from calculate_age_total [of 2026 "[]"] d
  have 4: "calculate_age 2026 (JStr []) = Inr JNull" by simp
  from 1 2 3 4 show ?thesis by simp
qed

text \<open>
  Claim C10. No range check: whenever the first segment parses to a year, the result is
  the current year minus that year, whatever the year; it is negative when the year lies
  in the future, and it is never \<open>None\<close>.
\<close>

theorem no_range_check_on_birth_year:
  "py_int (takeWhile (\<lambda>c. c \<noteq> 45) s) = Inr y \<Longrightarrow>
     calculate_age today_year (JStr s) = Inr (JInt (today_year - y))
     \<and> (today_year < y \<longrightarrow> today_year - y < 0)"
  by (simp add: calculate_age_str)

theorem no_range_check_on_birth_year_witness:
  "py_int (takeWhile (\<lambda>c. c \<noteq> 45) (str ''2999-01-01'')) = Inr 2999
   \<and> calculate_age 2026 (JStr (str ''2999-01-01'')) = Inr (JInt (- 973))"
proof -
  have a: "py_int (takeWhile (\<lambda>c. c \<noteq> 45) (str ''2999-01-01'')) = Inr 2999"
    by (simp add: str_def py_int_eval)
  from no_range_check_on_birth_year [OF a, of 2026] a show ?thesis by simp
qed

section \<open>Properties of the record normalizer\<close>

lemma str_eq_iff: "(str a = str b) = (a = b)"
  by (simp add: str_def inj_map_eq_map inj_on_def)

lemma extract_ids_Inr:
  "extract_ids item = Inr d \<Longrightarrow>
     \<exists>a p. dict_get item (str ''appointmentId'') JNull = Inr a
         \<and> dict_get item (str ''phoneNumber'') JNull = Inr p
         \<and> d = [(str ''appointmentId'', a), (str ''phoneNumber'', p)]"
  by (auto simp: extract_ids_def bindE_eq_Inr str_eq_iff)

lemma extract_patient_Inr:
  "extract_patient item [(str ''appointmentId'', a), (str ''phoneNumber'', p)] = Inr d \<Longrightarrow>
     \<exists>f l g b. d = [(str ''appointmentId'', a), (str ''phoneNumber'', p),
                     (str ''firstName'', f), (str ''lastName'', l),
                     (str ''gender'', g), (str ''birthDate'', b)]"
  by (auto simp: extract_patient_def bindE_eq_Inr str_eq_iff)

lemma transform_gender_Inr:
  "transform_gender [(str ''appointmentId'', a), (str ''phoneNumber'', p),
                     (str ''firstName'', f), (str ''lastName'', l),
                     (str ''gender'', g), (str ''birthDate'', b)] = Inr d \<Longrightarrow>
     \<exists>g'. d = [(str ''appointmentId'', a), (str ''phoneNumber'', p),
                (str ''firstName'', f), (str ''lastName'', l),
                (str ''gender'', JStr g'), (str ''birthDate'', b)]"
  by (auto simp: transform_gender_def bindE_eq_Inr getitem_def str_eq_iff)

lemma rename_birth_date_Inr:
  "rename_birth_date y [(str ''appointmentId'', a), (str ''phoneNumber'', p),
                     (str ''firstName'', f), (str ''lastName'', l),
                     (str ''gender'', g), (str ''birthDate'', b)] = Inr d \<Longrightarrow>
     \<exists>age. d = [(str ''appointmentId'', a), (str ''phoneNumber'', p),
                (str ''firstName'', f), (str ''lastName'', l),
                (str ''gender'', g), (str ''DOB'', b), (str ''Age'', age)]"
  by (auto simp: rename_birth_date_def bindE_eq_Inr getitem_def pop_item_def str_eq_iff)

lemma coerced_medicines: "\<exists>ms. (case m of JArr xs \<Rightarrow> JArr xs | _ \<Rightarrow> JArr []) = JArr ms"
  by (cases m) simp_all

lemma extract_medicines_Inr:
  assumes "extract_medicines item [(str ''appointmentId'', a), (str ''phoneNumber'', p),
                (str ''firstName'', f), (str ''lastName'', l),
                (str ''gender'', g), (str ''DOB'', b), (str ''Age'', age)] = Inr d"
  shows "\<exists>ms. d = [(str ''appointmentId'', a), (str ''phoneNumber'', p),
                (str ''firstName'', f), (str ''lastName'', l),
                (str ''gender'', g), (str ''DOB'', b), (str ''Age'', age),
                (str ''medicines'', JArr ms)]"
proof -
  from assms obtain m where
    d: "d = setitem [(str ''appointmentId'', a), (str ''phoneNumber'', p),
                (str ''firstName'', f), (str ''lastName'', l),
                (str ''gender'', g), (str ''DOB'', b), (str ''Age'', age)]
              (str ''medicines'') (case m of JArr xs \<Rightarrow> JArr xs | _ \<Rightarrow> JArr [])"
    unfolding extract_medicines_def bindE_eq_Inr by blast
  from coerced_medicines [of m] obtain ms where
    "(case m of JArr xs \<Rightarrow> JArr xs | _ \<Rightarrow> JArr []) = JArr ms" by blast
  with d show ?thesis by (simp add: str_eq_iff)
qed

lemma join_two_Inr:
  "join sep [x, y] = Inr r \<Longrightarrow> \<exists>s t. x = JStr s \<and> y = JStr t \<and> r = s @ sep @ t"
  by (cases x; cases y) (simp_all add: bindE_Inr bindE_Inl)

lemma derive_full_name_Inr:
  assumes "derive_full_name [(str ''appointmentId'', a), (str ''phoneNumber'', p),
                (str ''firstName'', f), (str ''lastName'', l),
                (str ''gender'', g), (str ''DOB'', b), (str ''Age'', age),
                (str ''medicines'', m)] = Inr d"
  shows "\<exists>s t. f = JStr s \<and> l = JStr t
        \<and> d = [(str ''appointmentId'', a), (str ''phoneNumber'', p),
                (str ''firstName'', f), (str ''lastName'', l),
                (str ''gender'', g), (str ''DOB'', b), (str ''Age'', age),
                (str ''medicines'', m), (str ''fullName'', JStr (s @ str '' '' @ t))]"
proof -
  let ?d = "[(str ''appointmentId'', a), (str ''phoneNumber'', p),
                (str ''firstName'', f), (str ''lastName'', l),
                (str ''gender'', g), (str ''DOB'', b), (str ''Age'', age),
                (str ''medicines'', m)]"
  have gf: "dict_get (JObj ?d) (str ''firstName'') (JStr []) = Inr f"
    by (simp add: dict_get_def str_eq_iff)
  have gl: "dict_get (JObj ?d) (str ''lastName'') (JStr []) = Inr l"
    by (simp add: dict_get_def str_eq_iff)
  from assms obtain n where
    j: "join (str '' '') [f, l] = Inr n" and d: "d = setitem ?d (str ''fullName'') (JStr n)"
    unfolding derive_full_name_def gf gl bindE_Inr bindE_eq_Inr by blast
  from join_two_Inr [OF j] obtain s t where
    "f = JStr s" "l = JStr t" "n = s @ str '' '' @ t" by blast
  with d show ?thesis by (simp add: str_eq_iff)
qed

lemma derive_is_valid_mobile_Inr:
  "derive_is_valid_mobile [(str ''appointmentId'', a), (str ''phoneNumber'', p),
                (str ''firstName'', f), (str ''lastName'', l),
                (str ''gender'', g), (str ''DOB'', b), (str ''Age'', age),
                (str ''medicines'', m), (str ''fullName'', n)] = Inr d \<Longrightarrow>
     \<exists>v. is_valid_indian_phone_number p = Inr v
        \<and> d = [(str ''appointmentId'', a), (str ''phoneNumber'', p),
                (str ''firstName'', f), (str ''lastName'', l),
                (str ''gender'', g), (str ''DOB'', b), (str ''Age'', age),
                (str ''medicines'', m), (str ''fullName'', n),
                (str ''isValidMobile'', JBool v)]"
  by (auto simp: derive_is_valid_mobile_def bindE_eq_Inr getitem_def str_eq_iff)

lemma derive_phone_hash_Inr:
  "derive_phone_hash [(str ''appointmentId'', a), (str ''phoneNumber'', p),
                (str ''firstName'', f), (str ''lastName'', l),
                (str ''gender'', g), (str ''DOB'', b), (str ''Age'', age),
                (str ''medicines'', m), (str ''fullName'', n),
                (str ''isValidMobile'', JBool v)] = Inr d \<Longrightarrow>
     \<exists>h. (if v then \<exists>s bs. p = JStr s \<and> encode_utf8 s = Inr bs
                            \<and> h = JStr (sha256_hexdigest bs)
              else h = JNull)
        \<and> d = [(str ''appointmentId'', a), (str ''phoneNumber'', p),
                (str ''firstName'', f), (str ''lastName'', l),
                (str ''gender'', g), (str ''DOB'', b), (str ''Age'', age),
                (str ''medicines'', m), (str ''fullName'', n),
                (str ''isValidMobile'', JBool v), (str ''phoneNumberHash'', h)]"
  by (cases v; cases p)
     (auto simp: derive_phone_hash_def bindE_eq_Inr getitem_def truthy_def py_encode_def
        str_eq_iff bindE_Inl)

lemma process_item_Inr:
  assumes "process_item y item = Inr r"
  shows "\<exists>a p s t g b age ms v h.
      dict_get item (str ''phoneNumber'') JNull = Inr p
    \<and> is_valid_indian_phone_number p = Inr v
    \<and> (if v then \<exists>u bs. p = JStr u \<and> encode_utf8 u = Inr bs \<and> h = JStr (sha256_hexdigest bs)
        else h = JNull)
    \<and> r = [(str ''appointmentId'', a), (str ''phoneNumber'', p),
            (str ''firstName'', JStr s), (str ''lastName'', JStr t),
            (str ''gender'', JStr g), (str ''DOB'', b), (str ''Age'', age),
            (str ''medicines'', JArr ms), (str ''fullName'', JStr (s @ str '' '' @ t)),
            (str ''isValidMobile'', JBool v), (str ''phoneNumberHash'', h)]"
proof -
  from assms obtain d1 d2 d3 d4 d5 d6 d7 where
    s1: "extract_ids item = Inr d1" and s2: "extract_patient item d1 = Inr d2"
    and s3: "transform_gender d2 = Inr d3" and s4: "rename_birth_date y d3 = Inr d4"
    and s5: "extract_medicines item d4 = Inr d5" and s6: "derive_full_name d5 = Inr d6"
    and s7: "derive_is_valid_mobile d6 = Inr d7" and s8: "derive_phone_hash d7 = Inr r"
    unfolding process_item_def bindE_eq_Inr by blast
  from extract_ids_Inr [OF s1] obtain a p where
    p: "dict_get item (str ''phoneNumber'') JNull = Inr p"
    and d1: "d1 = [(str ''appointmentId'', a), (str ''phoneNumber'', p)]" by blast
  from extract_patient_Inr [OF s2 [unfolded d1]] obtain f l g0 b where
    d2: "d2 = [(str ''appointmentId'', a), (str ''phoneNumber'', p),
               (str ''firstName'', f), (str ''lastName'', l),
               (str ''gender'', g0), (str ''birthDate'', b)]" by blast
  from transform_gender_Inr [OF s3 [unfolded d2]] obtain g where
    d3: "d3 = [(str ''appointmentId'', a), (str ''phoneNumber'', p),
               (str ''firstName'', f), (str ''lastName'', l),
               (str ''gender'', JStr g), (str ''birthDate'', b)]" by blast
  from rename_birth_date_Inr [OF s4 [unfolded d3]] obtain age where
    d4: "d4 = [(str ''appointmentId'', a), (str ''phoneNumber'', p),
               (str ''firstName'', f), (str ''lastName'', l),
               (str ''gender'', JStr g), (str ''DOB'', b), (str ''Age'', age)]" by blast
  from extract_medicines_Inr [OF s5 [unfolded d4]] obtain ms where
    d5: "d5 = [(str ''appointmentId'', a), (str ''phoneNumber'', p),
               (str ''firstName'', f), (str ''lastName'', l),
               (str ''gender'', JStr g), (str ''DOB'', b), (str ''Age'', age),
               (str ''medicines'', JArr ms)]" by blast
  from derive_full_name_Inr [OF s6 [unfolded d5]] obtain s t where
    f: "f = JStr s" and l: "l = JStr t" and
    d6: "d6 = [(str ''appointmentId'', a), (str ''phoneNumber'', p),
               (str ''firstName'', f), (str ''lastName'', l),
               (str ''gender'', JStr g), (str ''DOB'', b), (str ''Age'', age),
               (str ''medicines'', JArr ms), (str ''fullName'', JStr (s @ str '' '' @ t))]"
    by blast
  from derive_is_valid_mobile_Inr [OF s7 [unfolded d6]] obtain v where
    v: "is_valid_indian_phone_number p = Inr v" and
    d7: "d7 = [(str ''appointmentId'', a), (str ''phoneNumber'', p),
               (str ''firstName'', f), (str ''lastName'', l),
               (str ''gender'', JStr g), (str ''DOB'', b), (str ''Age'', age),
               (str ''medicines'', JArr ms), (str ''fullName'', JStr (s @ str '' '' @ t)),
               (str ''isValidMobile'', JBool v)]" by blast
  from derive_phone_hash_Inr [OF s8 [unfolded d7]] obtain h where
    h: "if v then \<exists>u bs. p = JStr u \<and> encode_utf8 u = Inr bs \<and> h = JStr (sha256_hexdigest bs)
        else h = JNull" and
    r: "r = [(str ''appointmentId'', a), (str ''phoneNumber'', p),
               (str ''firstName'', f), (str ''lastName'', l),
               (str ''gender'', JStr g), (str ''DOB'', b), (str ''Age'', age),
               (str ''medicines'', JArr ms), (str ''fullName'', JStr (s @ str '' '' @ t)),
               (str ''isValidMobile'', JBool v), (str ''phoneNumberHash'', h)]" by blast
  from p v h r f l show ?thesis by blast
qed

lemmas stage_defs =
  process_item_def extract_ids_def extract_patient_def transform_gender_def
  rename_birth_date_def extract_medicines_def derive_full_name_def
  derive_is_valid_mobile_def derive_phone_hash_def

lemmas dict_eval =
  dict_get_def getitem_def pop_item_def bindE_Inr bindE_Inl str_eq_iff

lemma encode_utf8_ascii:
  "list_all (\<lambda>c. c < 128) s \<Longrightarrow> encode_utf8 s = Inr (map of_nat s)"
proof -
  assume a: "list_all (\<lambda>c. c < 128) s"
  then have "mapE utf8_char s = Inr (map (\<lambda>c. [c]) s)"
    by (induction s) (simp_all add: utf8_char_def bindE_Inr)
  then show ?thesis
    by (simp add: encode_utf8_def bindE_Inr)
qed

lemma calculate_age_1990: "calculate_age 2026 (JStr (str ''1990-05-01'')) = Inr (JInt 36)"
  by (simp add: calculate_age_str) (simp add: str_def py_int_eval)

lemma valid_9199999999: "is_valid_indian_phone_number (JStr (str ''9199999999'')) = Inr True"
  by (simp add: is_valid_str) (simp add: str_def isdigit_ascii ascii_digit_def)

lemma encode_9199999999:
  "encode_utf8 (str ''9199999999'') = Inr (map of_nat (str ''9199999999''))"
  by (rule encode_utf8_ascii) (simp add: str_def)

lemma process_example_record: "process_item 2026 example_record = Inr example_canonical"
proof -
  have n: "str ''Jane'' @ str '' '' @ str ''Doe'' = str ''Jane Doe''"
    by (simp add: str_def)
  show ?thesis
    unfolding example_record_def example_canonical_def
    by (simp add: stage_defs dict_eval calculate_age_1990 valid_9199999999
          encode_9199999999 truthy_def py_encode_def n)
qed

text \<open>
  Claim C1 does not hold of the code. Line 102 looks the two names up in
  \<open>processed_item\<close>, where lines 75 and 76 have already stored them, as \<open>None\<close> when the
  source has none; the default \<open>''\<close> of \<open>get\<close> is never used and \<open>join\<close> raises
  \<open>TypeError\<close> on \<open>None\<close>. A record with a first name only, the last name missing or
  \<open>null\<close>, is not normalized: the loop body raises.
\<close>

theorem first_name_only_raises:
  "process_item today_year first_name_only = Inl TypeError
   \<and> process_item today_year last_name_null = Inl TypeError"
  unfolding first_name_only_def last_name_null_def
  by (simp add: stage_defs dict_eval calculate_age_def)

text \<open>
  What does hold: a record is normalized only when both names are strings, and then
  \<open>fullName\<close> is the two joined by one space (nothing trimmed).
\<close>

lemma normalized_names_are_strings:
  "process_item today_year item = Inr r \<Longrightarrow>
     \<exists>s t. map_of r (str ''firstName'') = Some (JStr s)
        \<and> map_of r (str ''lastName'') = Some (JStr t)
        \<and> map_of r (str ''fullName'') = Some (JStr (s @ str '' '' @ t))"
  by (drule process_item_Inr) (auto simp: str_eq_iff)

text \<open>
  Claim C7. In every canonical record the loop body produces, \<open>isValidMobile\<close> is a
  \<open>bool\<close>, \<open>phoneNumberHash\<close> is present, and the hash is not \<open>None\<close> exactly when
  \<open>isValidMobile\<close> is \<open>True\<close>; it is then the SHA-256 hex digest of the UTF-8 encoding of
  the \<open>phoneNumber\<close> string, which is the raw record's, untouched.
\<close>

theorem hash_iff_valid:
  "process_item today_year item = Inr r \<Longrightarrow>
     \<exists>v h. map_of r (str ''isValidMobile'') = Some (JBool v)
        \<and> map_of r (str ''phoneNumberHash'') = Some h
        \<and> (h \<noteq> JNull) = v
        \<and> (v \<longrightarrow> (\<exists>s bs. dict_get item (str ''phoneNumber'') JNull = Inr (JStr s)
                       \<and> map_of r (str ''phoneNumber'') = Some (JStr s)
                       \<and> encode_utf8 s = Inr bs
                       \<and> h = JStr (sha256_hexdigest bs)))"
  by (drule process_item_Inr) (auto simp: str_eq_iff split: if_splits)

theorem hash_iff_valid_witness:
  "process_item 2026 example_record = Inr example_canonical
   \<and> map_of example_canonical (str ''isValidMobile'') = Some (JBool True)
   \<and> map_of example_canonical (str ''phoneNumberHash'')
       = Some (JStr (sha256_hexdigest (map of_nat (str ''9199999999''))))"
proof -
  from hash_iff_valid [OF process_example_record] obtain v h where
    "map_of example_canonical (str ''isValidMobile'') = Some (JBool v)"
    "map_of example_canonical (str ''phoneNumberHash'') = Some h" by blast
  then show ?thesis
    by (simp add: process_example_record) (simp add: example_canonical_def str_eq_iff)
qed

text \<open>
  Claim C5, as stated, fails: \<open>9199999999\<close> is ten digits starting with \<open>91\<close>, so the
  validator answers \<open>True\<close> and the hash is computed. (The record needs both names to be
  normalized at all: see \<open>normalized_names_are_strings\<close>.)
\<close>

theorem phone_9199999999_counterexample:
  "process_item 2026 example_record = Inr example_canonical
   \<and> dict_get example_record (str ''phoneNumber'') JNull = Inr (JStr (str ''9199999999''))
   \<and> map_of example_canonical (str ''isValidMobile'') = Some (JBool True)
   \<and> map_of example_canonical (str ''phoneNumberHash'') \<noteq> Some JNull"
  by (simp add: process_example_record)
     (simp add: example_canonical_def example_record_def dict_get_def str_eq_iff)

text \<open>
  Claim C5, amended. Every raw record whose \<open>phoneNumber\<close> is \<open>9199999999\<close> and that the
  loop body normalizes gets \<open>isValidMobile = True\<close> and, as \<open>phoneNumberHash\<close>, the SHA-256
  hex digest of the ten ASCII bytes of the number.
\<close>

theorem phone_9199999999_is_valid:
  "dict_get item (str ''phoneNumber'') JNull = Inr (JStr (str ''9199999999'')) \<Longrightarrow>
   process_item today_year item = Inr r \<Longrightarrow>
     map_of r (str ''isValidMobile'') = Some (JBool True)
     \<and> map_of r (str ''phoneNumberHash'')
         = Some (JStr (sha256_hexdigest (map of_nat (str ''9199999999''))))"
  by (drule process_item_Inr)
     (auto simp: str_eq_iff valid_9199999999 encode_9199999999 split: if_splits)

theorem phone_9199999999_is_valid_witness:
  "dict_get example_record (str ''phoneNumber'') JNull = Inr (JStr (str ''9199999999''))
   \<and> process_item 2026 example_record = Inr example_canonical
   \<and> map_of example_canonical (str ''isValidMobile'') = Some (JBool True)"
proof -
  have a: "dict_get example_record (str ''phoneNumber'') JNull = Inr (JStr (str ''9199999999''))"
    by (simp add: example_record_def dict_get_def str_eq_iff)
  from phone_9199999999_is_valid [OF a process_example_record] a process_example_record
  show ?thesis by simp
qed

section \<open>Properties of the aggregator\<close>

text \<open>
  On a \<open>medicines\<close> column of lists, which is what normalization produces: the rows after
  \<open>explode\<close>, what line 151 counts, and when line 153 raises or counts.
\<close>

lemma explode_lists:
  "explode (map (\<lambda>ms. Val (JArr ms)) mss)
     = Inr (concat (map (\<lambda>ms. if ms = [] then [NaN] else map Val ms) mss))"
proof -
  have "mapE explode_cell (map (\<lambda>ms. Val (JArr ms)) mss)
          = Inr (map (\<lambda>ms. if ms = [] then [NaN] else map Val ms) mss)"
    by (induction mss) (simp_all add: explode_cell_def bindE_Inr)
  then show ?thesis by (simp add: explode_def bindE_Inr)
qed

lemma count_medicines_exploded:
  "sum_list (map count_medicines (if ms = [] then [NaN] else map Val ms))
     = sum_list (map (\<lambda>e. case e of JArr xs \<Rightarrow> length xs | _ \<Rightarrow> 0) ms)"
proof -
  have a: "count_medicines (Val e) = (case e of JArr xs \<Rightarrow> length xs | _ \<Rightarrow> 0)" for e
    by (simp add: count_medicines_def)
  have b: "count_medicines NaN = 0"
    by (simp add: count_medicines_def)
  show ?thesis by (simp add: a b comp_def)
qed

lemma total_medicines_counts_nested_lists_only:
  assumes "column df (str ''medicines'') = Inr (map (\<lambda>ms. Val (JArr ms)) mss)"
  shows "total_medicines df
     = Inr (sum_list (map (\<lambda>ms. sum_list (map (\<lambda>e. case e of JArr xs \<Rightarrow> length xs | _ \<Rightarrow> 0) ms)) mss))"
proof -
  have "sum_list (map count_medicines (concat (map (\<lambda>ms. if ms = [] then [NaN] else map Val ms) mss)))
      = sum_list (map (\<lambda>ms. sum_list (map (\<lambda>e. case e of JArr xs \<Rightarrow> length xs | _ \<Rightarrow> 0) ms)) mss)"
    by (induction mss) (simp_all add: count_medicines_exploded del: map_map)
  then show ?thesis
    by (simp add: total_medicines_def assms explode_lists bindE_Inr)
qed

lemma is_active_error: "is_active c = Inl e \<Longrightarrow> e = AttributeError"
  by (cases c) (auto simp: is_active_def dict_get_def bindE_def split: json.splits)

lemma mapE_is_active_NaN:
  "NaN \<in> set es \<Longrightarrow> mapE is_active es = Inl AttributeError"
proof (induction es)
  case Nil
  then show ?case by simp
next
  case (Cons c cs)
  show ?case
  proof (cases "is_active c")
    case (Inl e)
    then show ?thesis using is_active_error [OF Inl] by (simp add: bindE_Inl)
  next
    case (Inr a)
    then have "c \<noteq> NaN" by (auto simp: is_active_def)
    with Cons have "mapE is_active cs = Inl AttributeError" by simp
    with Inr show ?thesis by (simp add: bindE_Inr bindE_Inl)
  qed
qed

lemma active_medicines_empty_list_raises:
  assumes "column df (str ''medicines'') = Inr (map (\<lambda>ms. Val (JArr ms)) mss)"
    and "[] \<in> set mss"
  shows "active_medicines df = Inl AttributeError"
proof -
  from assms(2) have "NaN \<in> set (concat (map (\<lambda>ms. if ms = [] then [NaN] else map Val ms) mss))"
    by (auto intro!: bexI [of _ "[]"])
  then show ?thesis
    by (simp add: active_medicines_def assms(1) explode_lists bindE_Inr mapE_is_active_NaN bindE_Inl)
qed

text \<open>The same for every frame that \<open>process_json_data\<close> returns with at least one row.\<close>

lemma mapE_Inr_set:
  "mapE f xs = Inr ys \<Longrightarrow> y \<in> set ys \<Longrightarrow> \<exists>x. f x = Inr y"
proof (induction xs arbitrary: ys)
  case Nil
  then show ?case by simp
next
  case (Cons x xs)
  from Cons.prems(1) obtain z zs where
    z: "f x = Inr z" and zs: "mapE f xs = Inr zs" and ys: "ys = z # zs"
    by (auto simp: bindE_eq_Inr)
  show ?case
  proof (cases "y = z")
    case True
    with z show ?thesis by blast
  next
    case False
    with Cons.prems(2) ys have "y \<in> set zs" by simp
    with Cons.IH [OF zs] show ?thesis by blast
  qed
qed

lemma normalized_medicines:
  "process_item today_year item = Inr r \<Longrightarrow>
     map_of r (str ''medicines'') = Some (JArr (medicines_of r))
     \<and> str ''medicines'' \<in> set (map fst r)"
  by (drule process_item_Inr) (auto simp: medicines_of_def str_eq_iff)

lemma pipeline_medicines_column:
  assumes "process_json_data today_year data = Inr df" and "rows df \<noteq> []"
  shows "column df (str ''medicines'') = Inr (map (\<lambda>r. Val (JArr (medicines_of r))) (rows df))"
proof -
  from assms(1) obtain items rs where
    m: "mapE (process_item today_year) items = Inr rs" and df: "df = pd_DataFrame rs"
    by (auto simp: process_json_data_def bindE_eq_Inr)
  have rows: "rows df = rs" by (simp add: df pd_DataFrame_def)
  have each: "map_of r (str ''medicines'') = Some (JArr (medicines_of r))
              \<and> str ''medicines'' \<in> set (map fst r)" if "r \<in> set rs" for r
    using mapE_Inr_set [OF m that] normalized_medicines by blast
  from assms(2) rows obtain r0 where r0: "r0 \<in> set rs" by (cases rs) auto
  from each [OF r0] r0 have "str ''medicines'' \<in> set (columns df)"
    by (auto simp: df pd_DataFrame_def)
  moreover have "map (\<lambda>r. case map_of r (str ''medicines'') of None \<Rightarrow> NaN | Some v \<Rightarrow> Val v) rs
      = map (\<lambda>r. Val (JArr (medicines_of r))) rs"
    using each by simp
  ultimately show ?thesis by (simp add: column_def rows)
qed

lemma pipeline_total_medicines:
  assumes "process_json_data today_year data = Inr df" and "rows df \<noteq> []"
  shows "total_medicines df
     = Inr (sum_list (map (\<lambda>r. sum_list (map (\<lambda>e. case e of JArr xs \<Rightarrow> length xs | _ \<Rightarrow> 0)
                                             (medicines_of r))) (rows df)))"
  using total_medicines_counts_nested_lists_only
          [of df "map medicines_of (rows df)"] pipeline_medicines_column [OF assms]
  by (simp add: comp_def)

lemma pipeline_active_medicines_raises:
  assumes "process_json_data today_year data = Inr df"
    and "r \<in> set (rows df)" and "medicines_of r = []"
  shows "active_medicines df = Inl AttributeError"
proof -
  from assms(2) have ne: "rows df \<noteq> []" by auto
  have "[] \<in> set (map medicines_of (rows df))"
    using assms(2,3) by force
  with active_medicines_empty_list_raises [of df "map medicines_of (rows df)"]
    pipeline_medicines_column [OF assms(1) ne]
  show ?thesis by (simp add: comp_def)
qed

lemma is_active_expected:
  assumes "expected_shape e"
  shows "is_active (Val e) = Inr (Val (JBool (active_shape e)))"
proof -
  from assms obtain d where e: "e = JObj d"
    by (cases e) (simp_all add: expected_shape_def)
  show ?thesis
  proof (cases "map_of d (str ''IsActive'')")
    case None
    then show ?thesis
      by (simp add: e active_shape_def is_active_def dict_get_def bindE_Inr)
  next
    case (Some v)
    with assms e obtain b where "v = JBool b"
      by (cases v) (simp_all add: expected_shape_def)
    with Some show ?thesis
      by (cases b) (simp_all add: e active_shape_def is_active_def dict_get_def bindE_Inr)
  qed
qed

lemma mapE_is_active_expected:
  "list_all expected_shape es \<Longrightarrow>
     mapE is_active (map Val es) = Inr (map (\<lambda>e. Val (JBool (active_shape e))) es)"
  by (induction es) (simp_all add: is_active_expected bindE_Inr)

lemma series_sum_bools:
  "series_sum (map (\<lambda>e. Val (JBool (p e))) es) = Inr (length (filter p es))"
proof -
  have "list_all is_bool (map (\<lambda>e. Val (JBool (p e))) es)"
    by (induction es) (simp_all add: is_bool_def)
  moreover have "length (filter (\<lambda>c. c = Val (JBool True)) (map (\<lambda>e. Val (JBool (p e))) es))
      = length (filter p es)"
    by (induction es) simp_all
  ultimately show ?thesis by (simp add: series_sum_def)
qed

lemma active_medicines_counts_active:
  assumes "column df (str ''medicines'') = Inr (map (\<lambda>ms. Val (JArr ms)) mss)"
    and "[] \<notin> set mss" and "list_all expected_shape (concat mss)"
  shows "active_medicines df = Inr (length (filter active_shape (concat mss)))"
proof -
  from assms(2) have "concat (map (\<lambda>ms. if ms = [] then [NaN] else map Val ms) mss)
      = map Val (concat mss)"
    by (induction mss) auto
  then show ?thesis
    by (simp add: active_medicines_def assms(1) explode_lists bindE_Inr
          mapE_is_active_expected [OF assms(3)] series_sum_bools)
qed

text \<open>The sample appointments, normalized and framed.\<close>

lemma process_appointment_with:
  "process_item today_year (appointment_with ms) = Inr (canonical_with ms)"
proof -
  have n: "str ''Jane'' @ str '' '' @ str ''Doe'' = str ''Jane Doe''"
    by (simp add: str_def)
  show ?thesis
    unfolding appointment_with_def canonical_with_def
    by (simp add: stage_defs dict_eval calculate_age_def is_valid_null truthy_def n)
qed

lemma medicines_column_one:
  "column (pd_DataFrame [canonical_with ms]) (str ''medicines'') = Inr [Val (JArr ms)]"
  by (simp add: column_def pd_DataFrame_def canonical_with_def str_eq_iff)

lemma medicines_column_two:
  "column (pd_DataFrame [canonical_with ms, canonical_with ns]) (str ''medicines'')
     = Inr [Val (JArr ms), Val (JArr ns)]"
  by (simp add: column_def pd_DataFrame_def canonical_with_def str_eq_iff)

lemma process_one:
  "process_json_data today_year (JArr [appointment_with ms])
     = Inr (pd_DataFrame [canonical_with ms])"
  by (simp add: process_json_data_def py_iter_def bindE_Inr process_appointment_with)

lemma process_two:
  "process_json_data today_year (JArr [appointment_with ms, appointment_with ns])
     = Inr (pd_DataFrame [canonical_with ms, canonical_with ns])"
  by (simp add: process_json_data_def py_iter_def bindE_Inr process_appointment_with)

lemma process_none: "process_json_data today_year (JArr []) = Inr (pd_DataFrame [])"
  by (simp add: process_json_data_def py_iter_def bindE_Inr)

text \<open>
  Claim C3 does not hold of the code. \<open>pd.DataFrame([])\<close> has no columns, so the first
  entry of the result, \<open>dataframe['Age']\<close>, raises \<open>KeyError\<close>: aggregating the empty
  collection is an error, not the all-zero summary.
\<close>

theorem empty_collection_raises:
  "process_json_data today_year (JArr []) = Inr (pd_DataFrame [])
   \<and> columns (pd_DataFrame []) = []
   \<and> generate_aggregated_data (pd_DataFrame []) = Inl (KeyError (str ''Age''))"
  by (simp add: process_none)
     (simp add: generate_aggregated_data_def column_def pd_DataFrame_def bindE_Inl)

text \<open>
  Only a frame that has the columns and no rows (which \<open>process_json_data\<close> never
  builds) gives the summary the claim describes.
\<close>

lemma empty_frame_with_columns:
  "generate_aggregated_data
     \<lparr>columns = [str ''Age'', str ''gender'', str ''isValidMobile'', str ''medicines''],
      rows = []\<rparr>
   = Inr \<lparr>agg_Age = Map.empty, agg_gender = Map.empty, agg_validPhoneNumbers = 0,
          agg_appointments = 0, agg_medicines = 0, agg_activeMedicines = 0\<rparr>"
  by (simp add: generate_aggregated_data_def total_medicines_def active_medicines_def
        column_def value_counts_def series_sum_def explode_def bindE_Inr str_eq_iff)

text \<open>
  Claim C4 does not hold of the code. \<open>explode\<close> turns an empty \<open>medicines\<close> list into
  a \<open>NaN\<close> row, and the lambda of line 153 calls \<open>get\<close> on every row: on \<open>NaN\<close> and on any
  entry that is not a mapping it raises \<open>AttributeError\<close>. Only a mapping without
  \<open>IsActive\<close> is tolerated.
\<close>

theorem active_medicines_raises:
  "process_json_data today_year (JArr [appointment_with []])
     = Inr (pd_DataFrame [canonical_with []])
   \<and> active_medicines (pd_DataFrame [canonical_with []]) = Inl AttributeError
   \<and> active_medicines (pd_DataFrame [canonical_with [JStr (str ''not-a-mapping'')]])
       = Inl AttributeError
   \<and> active_medicines (pd_DataFrame [canonical_with [JObj []]]) = Inr 0"
  by (simp add: process_one)
     (simp add: active_medicines_def medicines_column_one explode_def explode_cell_def
        is_active_def dict_get_def series_sum_def is_bool_def bindE_Inr bindE_Inl)

text \<open>
  Claim C2 does not hold of the code. \<open>count_medicines\<close> is applied after \<open>explode\<close>, to
  each medicine entry instead of each record's list, so an entry counts \<open>0\<close> unless it is
  itself a list. For the two records of the claim, \<open>[]\<close> and \<open>[{"IsActive": true}]\<close>, the
  \<open>medicines\<close> expression is \<open>0\<close>, not \<open>1\<close>, and the call as a whole raises, on the
  \<open>NaN\<close> row of the empty list.
\<close>

theorem medicines_counts_zero:
  "process_json_data today_year (JArr [appointment_with [], appointment_with [active_entry]])
     = Inr (pd_DataFrame [canonical_with [], canonical_with [active_entry]])
   \<and> total_medicines (pd_DataFrame [canonical_with [], canonical_with [active_entry]]) = Inr 0
   \<and> generate_aggregated_data (pd_DataFrame [canonical_with [], canonical_with [active_entry]])
       = Inl AttributeError"
proof -
  let ?df = "pd_DataFrame [canonical_with [], canonical_with [active_entry]]"
  have t: "total_medicines ?df = Inr 0"
    by (simp add: total_medicines_def medicines_column_two explode_def explode_cell_def
          count_medicines_def active_entry_def bindE_Inr)
  have a: "active_medicines ?df = Inl AttributeError"
    by (simp add: active_medicines_def medicines_column_two explode_def explode_cell_def
          is_active_def active_entry_def bindE_Inr bindE_Inl)
  have c1: "column ?df (str ''Age'') = Inr [Val JNull, Val JNull]"
    by (simp add: column_def pd_DataFrame_def canonical_with_def str_eq_iff
         )
  have c2: "column ?df (str ''gender'') = Inr [Val (JStr (str ''others'')), Val (JStr (str ''others''))]"
    by (simp add: column_def pd_DataFrame_def canonical_with_def str_eq_iff
         )
  have c3: "column ?df (str ''isValidMobile'') = Inr [Val (JBool False), Val (JBool False)]"
    by (simp add: column_def pd_DataFrame_def canonical_with_def str_eq_iff
         )
  have g: "generate_aggregated_data ?df = Inl AttributeError"
    by (simp add: generate_aggregated_data_def t a c1 c2 c3 value_counts_def series_sum_def
          is_bool_def exact_as_float_def isna_def bindE_Inr bindE_Inl)
  from t g process_two [of today_year "[]" "[active_entry]"] show ?thesis by simp
qed

end
